theory Spec2Isabelle
  imports Main
begin

section \<open>Python values used by api.py\<close>

text \<open>
  A Python \<open>str\<close> is a sequence of Unicode code points, so a string is a list of
  naturals (one per code point): \<open>len\<close>, slicing and match offsets all count code
  points.  ASCII literals of the source are written through \<open>ascii\<close>.
\<close>

type_synonym pystr = "nat list"

definition ascii :: "string \<Rightarrow> pystr" where
  "ascii s = map of_char s"

text \<open>
  Exceptions are values.  \<open>IndexError\<close> is what \<open>xs[0]\<close> raises on an empty list;
  \<open>ServiceError msg\<close> is any \<open>Exception\<close> raised by one of the two remote clients,
  carrying \<open>str(e)\<close>.
\<close>

datatype py_exn = IndexError | ServiceError pystr

fun exn_str :: "py_exn \<Rightarrow> pystr" where
  "exn_str IndexError = ascii ''list index out of range''"
| "exn_str (ServiceError msg) = msg"

text \<open>
  Subscription \<open>xs[i]\<close> of a list.  The valid indices run from \<open>-len\<close> to
  \<open>len - 1\<close>, the negative ones counting back from the end; any other index raises
  \<open>IndexError\<close>.
\<close>

definition py_getitem :: "'a list \<Rightarrow> int \<Rightarrow> py_exn + 'a" where
  "py_getitem xs i =
     (if - int (length xs) \<le> i \<and> i < int (length xs)
      then Inr (xs ! (if i < 0 then nat (int (length xs) + i) else nat i))
      else Inl IndexError)"

text \<open>
  Slicing with step 1.  A bound is first adjusted to the range \<open>0..len\<close>: a negative
  bound counts from the end and is clamped at 0, a bound beyond the end is clamped at
  \<open>len\<close>.  Slicing never raises.
\<close>

definition adjust_index :: "int \<Rightarrow> nat \<Rightarrow> nat" where
  "adjust_index i n = (if i < 0 then nat (max (i + int n) 0) else min (nat i) n)"

text \<open>\<open>s[:stop]\<close>, \<open>s[start:]\<close> and \<open>s[start:stop]\<close>.\<close>

definition slice_to :: "'a list \<Rightarrow> int \<Rightarrow> 'a list" where
  "slice_to s stop = take (adjust_index stop (length s)) s"

definition slice_from :: "'a list \<Rightarrow> int \<Rightarrow> 'a list" where
  "slice_from s start = drop (adjust_index start (length s)) s"

definition slice :: "'a list \<Rightarrow> int \<Rightarrow> int \<Rightarrow> 'a list" where
  "slice s start stop =
     (let a = adjust_index start (length s); b = adjust_index stop (length s)
      in if a < b then take (b - a) (drop a s) else [])"

section \<open>The grammar checker's matches\<close>

text \<open>The attributes of \<open>language_tool_python\<close>'s \<open>Match\<close> that api.py reads.\<close>

record lt_match =
  offset :: int
  errorLength :: int
  ruleIssueType :: pystr
  message :: pystr
  replacements :: "pystr list"

section \<open>TextAnalyzer.apply_corrections\<close>

text \<open>
  The body of \<open>for match in reversed(matches)\<close>, run over the already reversed list;
  \<open>if match.replacements\<close> is the truth value of a list (non-empty).
\<close>

fun apply_loop :: "pystr \<Rightarrow> lt_match list \<Rightarrow> py_exn + pystr" where
  "apply_loop corrected_text [] = Inr corrected_text"
| "apply_loop corrected_text (m # ms) =
     (if replacements m \<noteq> [] then
        (case py_getitem (replacements m) 0 of
           Inl e \<Rightarrow> Inl e
         | Inr r \<Rightarrow>
             (let start = offset m; stop = offset m + errorLength m
              in apply_loop (slice_to corrected_text start @ r @ slice_from corrected_text stop) ms))
      else apply_loop corrected_text ms)"

definition apply_corrections :: "pystr \<Rightarrow> lt_match list \<Rightarrow> py_exn + pystr" where
  "apply_corrections text matches = apply_loop text (rev matches)"

subsection \<open>The specification's wording of applyCorrections\<close>

text \<open>
  The span \<open>[offset, offset+errorLength)\<close> of the text is replaced by the first
  replacement; a match without replacements leaves the text as it is.
\<close>

definition spec_splice :: "pystr \<Rightarrow> lt_match \<Rightarrow> pystr" where
  "spec_splice t m =
     (case replacements m of
        [] \<Rightarrow> t
      | r # _ \<Rightarrow> take (nat (offset m)) t @ r @ drop (nat (offset m + errorLength m)) t)"

text \<open>
  Last match first: the first match of the sequence is applied to the text that the
  later matches have already been applied to.
\<close>

fun spec_applyCorrections :: "pystr \<Rightarrow> lt_match list \<Rightarrow> pystr" where
  "spec_applyCorrections text [] = text"
| "spec_applyCorrections text (m # ms) = spec_splice (spec_applyCorrections text ms) m"

text \<open>The data model's constraint on a match: \<open>offset\<close> is an index, \<open>errorLength \<ge> 0\<close>.\<close>

definition span_ok :: "lt_match \<Rightarrow> bool" where
  "span_ok m = (0 \<le> offset m \<and> 0 \<le> errorLength m)"

section \<open>Whitespace, \<open>str.split()\<close> and \<open>str.isascii()\<close>\<close>

text \<open>
  The code points for which \<open>str.isspace()\<close> holds; \<open>str.split()\<close> without
  arguments splits at them, and the pattern \<open>\S\<close> of \<open>re\<close> on a \<open>str\<close> is their
  complement.
\<close>

definition isspace :: "nat \<Rightarrow> bool" where
  "isspace c =
     ((9 \<le> c \<and> c \<le> 13) \<or> (28 \<le> c \<and> c \<le> 32) \<or> c = 133 \<or> c = 160 \<or> c = 5760 \<or>
      (8192 \<le> c \<and> c \<le> 8202) \<or> c = 8232 \<or> c = 8233 \<or> c = 8239 \<or> c = 8287 \<or>
      c = 12288)"

text \<open>
  \<open>text.split()\<close>: one scan from the left; \<open>cur\<close> is the token being read.  Runs of
  whitespace separate tokens and no token is empty.
\<close>

fun split_scan :: "pystr \<Rightarrow> pystr \<Rightarrow> pystr list" where
  "split_scan cur [] = (if cur = [] then [] else [cur])"
| "split_scan cur (c # cs) =
     (if isspace c then (if cur = [] then split_scan [] cs else cur # split_scan [] cs)
      else split_scan (cur @ [c]) cs)"

definition py_split :: "pystr \<Rightarrow> pystr list" where
  "py_split s = split_scan [] s"

text \<open>\<open>word.isascii()\<close>: every code point is below 128 (true of the empty string).\<close>

definition isascii :: "pystr \<Rightarrow> bool" where
  "isascii s = list_all (\<lambda>c. c < 128) s"

subsection \<open>The specification's wording of the tokens\<close>

text \<open>
  The whitespace-delimited tokens of a text are its maximal runs of characters that
  are not whitespace, from left to right.
\<close>

function spec_tokens :: "pystr \<Rightarrow> pystr list" where
  "spec_tokens s =
     (let s' = dropWhile isspace s
      in if s' = [] then []
         else takeWhile (\<lambda>c. \<not> isspace c) s' # spec_tokens (dropWhile (\<lambda>c. \<not> isspace c) s'))"
  by pat_completeness auto
termination
proof (relation "measure length")
  show "wf (measure length)" by simp
next
  fix s x :: pystr
  assume x: "x = dropWhile isspace s" and ne: "x \<noteq> []"
  from ne obtain a as where xa: "x = a # as" by (cases x) simp_all
  have "\<not> isspace (hd x)" using ne unfolding x by (rule hd_dropWhile)
  then have "\<not> isspace a" by (simp add: xa)
  then have "dropWhile (\<lambda>c. \<not> isspace c) x = dropWhile (\<lambda>c. \<not> isspace c) as"
    using xa by simp
  then have "length (dropWhile (\<lambda>c. \<not> isspace c) x) \<le> length as"
    by (simp add: length_dropWhile_le)
  moreover have "length x \<le> length s" using x by (simp add: length_dropWhile_le)
  ultimately show "(dropWhile (\<lambda>c. \<not> isspace c) x, s) \<in> measure length"
    using xa by simp
qed

text \<open>A native word is a token with at least one character outside ASCII.\<close>

definition spec_native_words :: "pystr \<Rightarrow> pystr list" where
  "spec_native_words text = filter (\<lambda>tok. \<exists>c\<in>set tok. 128 \<le> c) (spec_tokens text)"

section \<open>The TextAnalyzer object and its remote clients\<close>

text \<open>
  The two clients are remote services: a call may fail, and two calls with the same
  argument may answer differently.  Each is a function on an explicit world state \<open>'w\<close>
  that returns the answer (or the exception) together with the new world.
\<close>

record 'w text_analyzer =
  tool_check :: "'w \<Rightarrow> pystr \<Rightarrow> (py_exn + lt_match list) \<times> 'w"
  translator_translate :: "'w \<Rightarrow> pystr \<Rightarrow> string \<Rightarrow> string \<Rightarrow> (py_exn + pystr) \<times> 'w"
  error_type_colors :: "(pystr \<times> pystr) list"

text \<open>\<open>__init__\<close>, with the two clients it constructs taken as parameters.\<close>

definition init_analyzer ::
  "('w \<Rightarrow> pystr \<Rightarrow> (py_exn + lt_match list) \<times> 'w) \<Rightarrow>
   ('w \<Rightarrow> pystr \<Rightarrow> string \<Rightarrow> string \<Rightarrow> (py_exn + pystr) \<times> 'w) \<Rightarrow> 'w text_analyzer" where
  "init_analyzer tool translator =
     \<lparr> tool_check = tool, translator_translate = translator,
       error_type_colors =
         [(ascii ''grammar'', ascii ''red''), (ascii ''typographical'', ascii ''blue''),
          (ascii ''spelling'', ascii ''green''), (ascii ''style'', ascii ''orange'')] \<rparr>"

section \<open>TextAnalyzer.translate_native_words\<close>

text \<open>The three Russian literals of the method, as code points.\<close>

definition no_native_words_key :: pystr where
  "no_native_words_key =
     [1053, 1077, 1090, 32, 1089, 1083, 1086, 1074, 32, 1085, 1072, 32, 1088, 1086, 1076,
      1085, 1086, 1084, 32, 1103, 1079, 1099, 1082, 1077]"

definition no_translation_needed :: pystr where
  "no_translation_needed =
     [1055, 1077, 1088, 1077, 1074, 1086, 1076, 32, 1085, 1077, 32, 1090, 1088, 1077, 1073,
      1091, 1077, 1090, 1089, 1103]"

definition translation_error_prefix :: pystr where
  "translation_error_prefix =
     [1054, 1096, 1080, 1073, 1082, 1072, 32, 1087, 1077, 1088, 1077, 1074, 1086, 1076,
      1072, 58, 32]"

text \<open>
  What one pass of the loop stores for a word: the translated text, or in the
  \<open>except Exception\<close> branch the prefix followed by \<open>str(e)\<close>.
\<close>

fun stored_value :: "py_exn + pystr \<Rightarrow> pystr" where
  "stored_value (Inr translated) = translated"
| "stored_value (Inl e) = translation_error_prefix @ exn_str e"

text \<open>\<open>for word in native_words\<close>, threading the dictionary and the world.\<close>

fun translate_loop ::
  "'w text_analyzer \<Rightarrow> 'w \<Rightarrow> (pystr \<rightharpoonup> pystr) \<Rightarrow> pystr list \<Rightarrow> (pystr \<rightharpoonup> pystr) \<times> 'w" where
  "translate_loop self w dict [] = (dict, w)"
| "translate_loop self w dict (word # ws) =
     (case translator_translate self w word ''ru'' ''en'' of
        (Inr translated, w') \<Rightarrow> translate_loop self w' (dict(word \<mapsto> translated)) ws
      | (Inl e, w') \<Rightarrow>
          translate_loop self w' (dict(word \<mapsto> translation_error_prefix @ exn_str e)) ws)"

definition translate_native_words ::
  "'w text_analyzer \<Rightarrow> 'w \<Rightarrow> pystr list \<Rightarrow> (pystr \<rightharpoonup> pystr) \<times> 'w" where
  "translate_native_words self w native_words =
     (if native_words = [] then ([no_native_words_key \<mapsto> no_translation_needed], w)
      else translate_loop self w Map.empty native_words)"

text \<open>
  The translator run on its own over a list of words, one call per element in order:
  the answers, and the world after the last call.  The theorems compare the method
  with this run.
\<close>

fun translator_answers :: "'w text_analyzer \<Rightarrow> 'w \<Rightarrow> pystr list \<Rightarrow> (py_exn + pystr) list" where
  "translator_answers self w [] = []"
| "translator_answers self w (word # ws) =
     fst (translator_translate self w word ''ru'' ''en'') #
     translator_answers self (snd (translator_translate self w word ''ru'' ''en'')) ws"

fun translator_world :: "'w text_analyzer \<Rightarrow> 'w \<Rightarrow> pystr list \<Rightarrow> 'w" where
  "translator_world self w [] = w"
| "translator_world self w (word # ws) =
     translator_world self (snd (translator_translate self w word ''ru'' ''en'')) ws"

section \<open>TextAnalyzer.analyze_text\<close>

record error_detail =
  detail_type :: pystr
  detail_text :: pystr
  detail_message :: pystr
  detail_suggestions :: "pystr list"

record analysis =
  corrected_text :: pystr
  error_count :: nat
  word_count :: nat
  error_details :: "error_detail list"
  translations_dict :: "pystr \<rightharpoonup> pystr"

text \<open>The list comprehension that builds \<open>error_details\<close>, one element per match.\<close>

fun details_of :: "pystr \<Rightarrow> lt_match list \<Rightarrow> error_detail list" where
  "details_of text [] = []"
| "details_of text (m # ms) =
     \<lparr> detail_type = ruleIssueType m,
       detail_text = slice text (offset m) (offset m + errorLength m),
       detail_message = message m,
       detail_suggestions = replacements m \<rparr> # details_of text ms"

text \<open>
  An exception of \<open>self.tool.check\<close> is not caught and ends the call; so would one of
  \<open>apply_corrections\<close>.
\<close>

definition analyze_text :: "'w text_analyzer \<Rightarrow> 'w \<Rightarrow> pystr \<Rightarrow> (py_exn + analysis) \<times> 'w" where
  "analyze_text self w text =
     (case tool_check self w text of
        (Inl e, w1) \<Rightarrow> (Inl e, w1)
      | (Inr matches, w1) \<Rightarrow>
          (case apply_corrections text matches of
             Inl e \<Rightarrow> (Inl e, w1)
           | Inr corrected \<Rightarrow>
               (let native_words = filter (\<lambda>word. \<not> isascii word) (py_split text);
                    tr = translate_native_words self w1 native_words
                in (Inr \<lparr> corrected_text = corrected,
                          error_count = length matches,
                          word_count = length (py_split text),
                          error_details = details_of text matches,
                          translations_dict = fst tr \<rparr>, snd tr))))"

section \<open>TextAnalyzer.create_error_chart and the endpoint /error_chart\<close>

text \<open>\<open>Counter(error_types)\<close>: counts per key, keys in order of first occurrence.\<close>

fun counter_add :: "(pystr \<times> nat) list \<Rightarrow> pystr \<Rightarrow> (pystr \<times> nat) list" where
  "counter_add [] k = [(k, 1)]"
| "counter_add ((k', n) # kns) k =
     (if k' = k then (k', n + 1) # kns else (k', n) # counter_add kns k)"

definition Counter :: "pystr list \<Rightarrow> (pystr \<times> nat) list" where
  "Counter ks = foldl counter_add [] ks"

text \<open>
  What the method hands to matplotlib: the bars (category, height, colour), the title,
  the axis labels and the number written on each bar.  The library is a parameter that
  turns this into the bytes of a PNG, on the world state.
\<close>

record chart =
  bar_x :: "pystr list"
  bar_height :: "nat list"
  bar_color :: "pystr list"
  chart_title :: pystr
  chart_xlabel :: pystr
  chart_ylabel :: pystr
  bar_text :: "nat list"

definition create_error_chart ::
  "'w text_analyzer \<Rightarrow> ('w \<Rightarrow> chart \<Rightarrow> nat list \<times> 'w) \<Rightarrow> 'w \<Rightarrow> lt_match list \<Rightarrow> nat list \<times> 'w" where
  "create_error_chart self plt w matches =
     (let error_types = map ruleIssueType matches;
          counter = Counter error_types
      in plt w
           \<lparr> bar_x = map fst counter,
             bar_height = map snd counter,
             bar_color =
               map (\<lambda>key. case map_of (error_type_colors self) key of
                             Some colour \<Rightarrow> colour
                           | None \<Rightarrow> ascii ''gray'') (map fst counter),
             chart_title =
               [1056, 1072, 1089, 1087, 1088, 1077, 1076, 1077, 1083, 1077, 1085, 1080, 1077,
                32, 1090, 1080, 1087, 1086, 1074, 32, 1086, 1096, 1080, 1073, 1086, 1082],
             chart_xlabel = [1058, 1080, 1087, 32, 1086, 1096, 1080, 1073, 1082, 1080],
             chart_ylabel = [1050, 1086, 1083, 1080, 1095, 1077, 1089, 1090, 1074, 1086],
             bar_text = map snd counter \<rparr>)"

text \<open>What a request handler returns.\<close>

datatype response =
  JSONResponse "(pystr \<times> pystr) list"
| FileResponse "nat list" pystr pystr

definition no_errors_found :: pystr where
  "no_errors_found =
     [1054, 1096, 1080, 1073, 1086, 1082, 32, 1085, 1077, 32, 1086, 1073, 1085, 1072, 1088,
      1091, 1078, 1077, 1085, 1086]"

definition error_chart ::
  "'w text_analyzer \<Rightarrow> ('w \<Rightarrow> chart \<Rightarrow> nat list \<times> 'w) \<Rightarrow> 'w \<Rightarrow> pystr \<Rightarrow> (py_exn + response) \<times> 'w" where
  "error_chart self plt w text =
     (case tool_check self w text of
        (Inl e, w1) \<Rightarrow> (Inl e, w1)
      | (Inr matches, w1) \<Rightarrow>
          (if matches = [] then (Inr (JSONResponse [(ascii ''message'', no_errors_found)]), w1)
           else
             (let r = create_error_chart self plt w1 matches
              in (Inr (FileResponse (fst r) (ascii ''image/png'') (ascii ''error_chart.png'')),
                  snd r))))"

section \<open>The endpoint /translate_to_russian\<close>

text \<open>
  \<open>re.sub(r'([.!?])(\S)', r'\1 \2', s)\<close>: the string is scanned from the left for
  non-overlapping matches of the two-character pattern.  A match is replaced by its
  first character, a space and its second character, and the scan goes on behind the
  second character; elsewhere one character is copied.
\<close>

definition sentence_end :: "nat \<Rightarrow> bool" where
  "sentence_end c = (c = 46 \<or> c = 33 \<or> c = 63)"

fun re_sub_space :: "pystr \<Rightarrow> pystr" where
  "re_sub_space (p # c # rest) =
     (if sentence_end p \<and> \<not> isspace c then p # 32 # c # re_sub_space rest
      else p # re_sub_space (c # rest))"
| "re_sub_space [p] = [p]"
| "re_sub_space [] = []"

text \<open>
  Two properties of a string, for the claims about the substitution: a sentence-ending
  mark directly followed by a character that is not whitespace, and two sentence-ending
  marks side by side.
\<close>

fun tight :: "pystr \<Rightarrow> bool" where
  "tight (p # c # rest) = ((sentence_end p \<and> \<not> isspace c) \<or> tight (c # rest))"
| "tight [p] = False"
| "tight [] = False"

fun adjacent_marks :: "pystr \<Rightarrow> bool" where
  "adjacent_marks (p # c # rest) = ((sentence_end p \<and> sentence_end c) \<or> adjacent_marks (c # rest))"
| "adjacent_marks [p] = False"
| "adjacent_marks [] = False"

definition translate_to_russian :: "'w text_analyzer \<Rightarrow> 'w \<Rightarrow> pystr \<Rightarrow> response \<times> 'w" where
  "translate_to_russian self w text =
     (case translator_translate self w text ''en'' ''ru'' of
        (Inl e, w1) \<Rightarrow> (JSONResponse [(ascii ''error'', exn_str e)], w1)
      | (Inr translation, w1) \<Rightarrow>
          (JSONResponse [(ascii ''original_text'', text),
                         (ascii ''translated_text'', re_sub_space translation)], w1))"

section \<open>Slicing and indexing\<close>

lemma slice_to_nonneg: "0 \<le> i \<Longrightarrow> slice_to s i = take (nat i) s"
  by (simp add: slice_to_def adjust_index_def min_def)

lemma slice_from_nonneg: "0 \<le> i \<Longrightarrow> slice_from s i = drop (nat i) s"
  by (simp add: slice_from_def adjust_index_def min_def)

lemma slice_nonneg:
  "0 \<le> i \<Longrightarrow> 0 \<le> n \<Longrightarrow> slice s i (i + n) = take (nat n) (drop (nat i) s)"
  by (auto simp: slice_def adjust_index_def Let_def min_def nat_add_distrib)

lemma slice_beyond:
  "0 \<le> a \<Longrightarrow> int (length s) \<le> b \<Longrightarrow> slice s a b = drop (nat a) s"
  by (cases s) (auto simp: slice_def adjust_index_def Let_def min_def)

lemma slice_from_beyond: "int (length s) \<le> b \<Longrightarrow> slice_from s b = []"
  by (cases s) (auto simp: slice_from_def adjust_index_def min_def)

lemma py_getitem_0_Cons: "py_getitem (x # xs) 0 = Inr x"
  by (simp add: py_getitem_def)

section \<open>The correction loop\<close>

lemma apply_loop_foldl:
  "\<forall>m\<in>set ms. span_ok m \<Longrightarrow> apply_loop t ms = Inr (foldl spec_splice t ms)"
proof (induction ms arbitrary: t)
  case Nil
  show ?case by simp
next
  case (Cons m ms)
  have ok: "0 \<le> offset m" "0 \<le> offset m + errorLength m"
    using Cons.prems by (simp_all add: span_ok_def)
  have rest: "\<forall>m\<in>set ms. span_ok m" using Cons.prems by simp
  show ?case
  proof (cases "replacements m")
    case Nil
    then show ?thesis using Cons.IH [OF rest] by (simp add: spec_splice_def)
  next
    case (Cons r rs)
    then show ?thesis
      using Cons.IH [OF rest] ok
      by (simp add: spec_splice_def py_getitem_0_Cons slice_to_nonneg slice_from_nonneg)
  qed
qed

lemma spec_applyCorrections_foldl:
  "spec_applyCorrections text ms = foldl spec_splice text (rev ms)"
  by (induction ms) simp_all

lemma apply_loop_no_replacements:
  "\<forall>m\<in>set ms. replacements m = [] \<Longrightarrow> apply_loop t ms = Inr t"
  by (induction ms arbitrary: t) simp_all

lemma apply_loop_total: "\<exists>r. apply_loop t ms = Inr r"
proof (induction ms arbitrary: t)
  case Nil
  show ?case by simp
next
  case (Cons m ms)
  show ?case
  proof (cases "replacements m")
    case Nil
    then show ?thesis using Cons.IH by simp
  next
    case (Cons r rs)
    then show ?thesis using Cons.IH by (simp add: py_getitem_0_Cons)
  qed
qed

section \<open>The scanner of \<open>split\<close> yields the maximal runs\<close>

declare spec_tokens.simps [simp del]

lemma spec_tokens_Nil: "spec_tokens [] = []"
  by (simp add: spec_tokens.simps)

lemma spec_tokens_space: "isspace c \<Longrightarrow> spec_tokens (c # cs) = spec_tokens cs"
  by (simp add: spec_tokens.simps [of "c # cs"] spec_tokens.simps [of cs])

lemma spec_tokens_nonspace:
  "\<not> isspace c \<Longrightarrow>
   spec_tokens (c # cs) =
     (c # takeWhile (\<lambda>c. \<not> isspace c) cs) # spec_tokens (dropWhile (\<lambda>c. \<not> isspace c) cs)"
  by (simp add: spec_tokens.simps [of "c # cs"])

lemma split_scan_tokens:
  "split_scan cur s =
     (if cur = [] then spec_tokens s
      else (cur @ takeWhile (\<lambda>c. \<not> isspace c) s) # spec_tokens (dropWhile (\<lambda>c. \<not> isspace c) s))"
proof (induction s arbitrary: cur)
  case Nil
  show ?case by (simp add: spec_tokens_Nil)
next
  case (Cons c cs)
  show ?case
  proof (cases "isspace c")
    case True
    then show ?thesis by (simp add: Cons.IH spec_tokens_space)
  next
    case False
    then show ?thesis by (simp add: Cons.IH spec_tokens_nonspace)
  qed
qed

lemma py_split_tokens: "py_split s = spec_tokens s"
  by (simp add: py_split_def split_scan_tokens)

lemma isascii_iff: "(\<not> isascii word) = (\<exists>c\<in>set word. 128 \<le> c)"
  by (auto simp: isascii_def list_all_iff not_less)

lemma native_words_eq:
  "filter (\<lambda>word. \<not> isascii word) (py_split text) = spec_native_words text"
  by (simp add: spec_native_words_def py_split_tokens isascii_iff)

section \<open>The translation loop\<close>

lemma translate_loop_upds:
  "translate_loop self w d ws =
     (d(ws [\<mapsto>] map stored_value (translator_answers self w ws)), translator_world self w ws)"
proof (induction ws arbitrary: w d)
  case Nil
  show ?case by simp
next
  case (Cons word ws)
  show ?case
  proof (cases "translator_translate self w word ''ru'' ''en''")
    case (Pair ans w')
    show ?thesis
    proof (cases ans)
      case (Inl e)
      have "translate_loop self w d (word # ws) =
              translate_loop self w' (d(word \<mapsto> translation_error_prefix @ exn_str e)) ws"
        using Pair Inl by simp
      then show ?thesis using Pair Inl by (simp add: Cons.IH fun_upd_def)
    next
      case (Inr t)
      have "translate_loop self w d (word # ws) = translate_loop self w' (d(word \<mapsto> t)) ws"
        using Pair Inr by simp
      then show ?thesis using Pair Inr by (simp add: Cons.IH fun_upd_def)
    qed
  qed
qed

lemma length_translator_answers: "length (translator_answers self w ws) = length ws"
  by (induction ws arbitrary: w) simp_all

lemma upds_last_occurrence:
  "length ys = length xs \<Longrightarrow> i < length xs \<Longrightarrow> xs ! i \<notin> set (drop (Suc i) xs) \<Longrightarrow>
   (m(xs [\<mapsto>] ys)) (xs ! i) = Some (ys ! i)"
proof (induction xs arbitrary: m ys i)
  case Nil
  then show ?case by simp
next
  case (Cons x xs)
  then obtain y ys' where ys: "ys = y # ys'" by (cases ys) auto
  show ?case
  proof (cases i)
    case 0
    then show ?thesis using Cons.prems ys by (simp add: map_upds_apply_nontin)
  next
    case (Suc j)
    have "((m(x \<mapsto> y))(xs [\<mapsto>] ys')) (xs ! j) = Some (ys' ! j)"
      by (rule Cons.IH) (use Cons.prems ys Suc in simp_all)
    then show ?thesis by (simp only: ys Suc map_upds_Cons nth_Cons_Suc)
  qed
qed

section \<open>The analysis\<close>

lemma analyze_text_Inr:
  assumes "analyze_text self w text = (Inr res, w')"
  obtains ms w1 corrected where
    "tool_check self w text = (Inr ms, w1)"
    "apply_corrections text ms = Inr corrected"
    "corrected_text res = corrected"
    "error_count res = length ms"
    "word_count res = length (py_split text)"
    "error_details res = details_of text ms"
    "translations_dict res =
       fst (translate_native_words self w1 (filter (\<lambda>word. \<not> isascii word) (py_split text)))"
    "w' = snd (translate_native_words self w1 (filter (\<lambda>word. \<not> isascii word) (py_split text)))"
  using assms
  by (auto simp: analyze_text_def Let_def split: prod.splits sum.splits)

lemma analyze_text_total:
  assumes "tool_check self w text = (Inr ms, w1)"
  shows "\<exists>res w2. analyze_text self w text = (Inr res, w2)"
proof -
  obtain r where "apply_corrections text ms = Inr r"
    using apply_loop_total [of "text" "rev ms"] by (auto simp: apply_corrections_def)
  then show ?thesis using assms by (simp add: analyze_text_def Let_def)
qed

lemma details_of_map:
  "details_of text ms =
     map (\<lambda>m. \<lparr> detail_type = ruleIssueType m,
                 detail_text = slice text (offset m) (offset m + errorLength m),
                 detail_message = message m,
                 detail_suggestions = replacements m \<rparr>) ms"
  by (induction ms) simp_all

lemmas tok_simps = spec_tokens_Nil spec_tokens_space spec_tokens_nonspace isspace_def

section \<open>The chart and the substitution\<close>

lemma counter_add_nonempty: "counter_add kns k \<noteq> []"
  by (cases kns) (auto split: if_splits)

lemma foldl_counter_add_nonempty: "acc \<noteq> [] \<Longrightarrow> foldl counter_add acc ks \<noteq> []"
  by (induction ks arbitrary: acc) (simp_all add: counter_add_nonempty)

lemma Counter_nonempty: "ks \<noteq> [] \<Longrightarrow> Counter ks \<noteq> []"
  by (cases ks) (simp_all add: Counter_def foldl_counter_add_nonempty counter_add_nonempty)

lemma tight_Cons_plain: "\<not> sentence_end c \<Longrightarrow> tight (c # xs) = tight xs"
  by (cases xs) simp_all

lemma re_sub_space_Cons: "\<exists>ys. re_sub_space (c # rest) = c # ys"
  by (cases rest) simp_all

text \<open>
  What the substitution does achieve: when no two sentence-ending marks stand side by
  side in the string, no mark of the result is directly followed by a character that is
  not whitespace.
\<close>

lemma re_sub_space_not_tight: "\<not> adjacent_marks s \<Longrightarrow> \<not> tight (re_sub_space s)"
proof (induction s rule: re_sub_space.induct)
  case (1 p c rest)
  show ?case
  proof (cases "sentence_end p \<and> \<not> isspace c")
    case True
    then have c: "\<not> sentence_end c" using "1.prems" by simp
    have "\<not> adjacent_marks rest" using "1.prems" by (cases rest) simp_all
    then have "\<not> tight (re_sub_space rest)" using "1.IH"(1) True by simp
    moreover have "\<not> sentence_end 32" "isspace 32" by (simp_all add: sentence_end_def isspace_def)
    ultimately show ?thesis using True c by (simp add: tight_Cons_plain)
  next
    case False
    then have ih: "\<not> tight (re_sub_space (c # rest))" using "1.IH"(2) "1.prems" by simp
    obtain ys where ys: "re_sub_space (c # rest) = c # ys" using re_sub_space_Cons by blast
    show ?thesis using False ih ys by auto
  qed
qed simp_all

text \<open>The example of the specification.\<close>

lemma re_sub_space_example:
  "re_sub_space
     [1055, 1088, 1080, 1074, 1077, 1090, 46, 1050, 1072, 1082, 32, 1076, 1077, 1083, 1072,
      63, 1061, 1086, 1088, 1086, 1096, 1086] =
     [1055, 1088, 1080, 1074, 1077, 1090, 46, 32, 1050, 1072, 1082, 32, 1076, 1077, 1083,
      1072, 63, 32, 1061, 1086, 1088, 1086, 1096, 1086]"
  by (simp add: sentence_end_def isspace_def)

section \<open>Claims about apply_corrections\<close>

text \<open>
  C1.  \<open>apply_corrections\<close> handles the matches in reverse of their given order, last
  match first.  A match with a non-empty list of replacements has its first replacement
  spliced into the text over the span from \<open>offset\<close> to \<open>offset + errorLength\<close>; a
  match with no replacement leaves the text as it is.  This holds for every text and
  every sequence of matches whose offsets and lengths are not negative, as the data
  model of a match says; a span that reaches beyond the text is cut at its end.  In the
  witness the order matters: the loop run in the given order, first match first, ends
  with another text.
\<close>

theorem apply_corrections_reverse_splice:
  "\<forall>m\<in>set ms. span_ok m \<Longrightarrow> apply_corrections text ms = Inr (spec_applyCorrections text ms)"
  by (simp add: apply_corrections_def apply_loop_foldl spec_applyCorrections_foldl)

theorem apply_corrections_reverse_splice_witness:
  "span_ok \<lparr>offset = 0, errorLength = 4, ruleIssueType = ascii ''misspelling'',
       message = ascii ''typo'', replacements = [ascii ''a lot'', ascii ''allot'']\<rparr> \<and>
   span_ok \<lparr>offset = 5, errorLength = 2, ruleIssueType = ascii ''style'',
       message = ascii ''vague'', replacements = []\<rparr> \<and>
   span_ok \<lparr>offset = 8, errorLength = 5, ruleIssueType = ascii ''misspelling'',
       message = ascii ''typo'', replacements = [ascii ''errors'']\<rparr> \<and>
   apply_corrections (ascii ''alot of erors'')
     [\<lparr>offset = 0, errorLength = 4, ruleIssueType = ascii ''misspelling'',
       message = ascii ''typo'', replacements = [ascii ''a lot'', ascii ''allot'']\<rparr>,
      \<lparr>offset = 5, errorLength = 2, ruleIssueType = ascii ''style'',
       message = ascii ''vague'', replacements = []\<rparr>,
      \<lparr>offset = 8, errorLength = 5, ruleIssueType = ascii ''misspelling'',
       message = ascii ''typo'', replacements = [ascii ''errors'']\<rparr>]
   = Inr (ascii ''a lot of errors'') \<and>
   apply_loop (ascii ''alot of erors'')
     [\<lparr>offset = 0, errorLength = 4, ruleIssueType = ascii ''misspelling'',
       message = ascii ''typo'', replacements = [ascii ''a lot'', ascii ''allot'']\<rparr>,
      \<lparr>offset = 5, errorLength = 2, ruleIssueType = ascii ''style'',
       message = ascii ''vague'', replacements = []\<rparr>,
      \<lparr>offset = 8, errorLength = 5, ruleIssueType = ascii ''misspelling'',
       message = ascii ''typo'', replacements = [ascii ''errors'']\<rparr>]
   = Inr (ascii ''a lot oferrorss'')"
proof -
  have fwd: "apply_loop (ascii ''alot of erors'')
     [\<lparr>offset = 0, errorLength = 4, ruleIssueType = ascii ''misspelling'',
       message = ascii ''typo'', replacements = [ascii ''a lot'', ascii ''allot'']\<rparr>,
      \<lparr>offset = 5, errorLength = 2, ruleIssueType = ascii ''style'',
       message = ascii ''vague'', replacements = []\<rparr>,
      \<lparr>offset = 8, errorLength = 5, ruleIssueType = ascii ''misspelling'',
       message = ascii ''typo'', replacements = [ascii ''errors'']\<rparr>]
   = Inr (ascii ''a lot oferrorss'')"
    by (simp add: py_getitem_0_Cons slice_to_nonneg slice_from_nonneg ascii_def)
  show ?thesis
    using fwd apply_corrections_reverse_splice
      [of "[\<lparr>offset = 0, errorLength = 4, ruleIssueType = ascii ''misspelling'',
       message = ascii ''typo'', replacements = [ascii ''a lot'', ascii ''allot'']\<rparr>,
      \<lparr>offset = 5, errorLength = 2, ruleIssueType = ascii ''style'',
       message = ascii ''vague'', replacements = []\<rparr>,
      \<lparr>offset = 8, errorLength = 5, ruleIssueType = ascii ''misspelling'',
       message = ascii ''typo'', replacements = [ascii ''errors'']\<rparr>]" "ascii ''alot of erors''"]
    by (simp add: span_ok_def spec_splice_def ascii_def)
qed

text \<open>
  C9.  \<open>apply_corrections\<close> is the identity on the text when no correction applies:
  on the empty sequence of matches, and on every sequence all of whose matches have an
  empty list of replacements.
\<close>

theorem apply_corrections_identity:
  "apply_corrections text [] = Inr text \<and>
   ((\<forall>m\<in>set ms. replacements m = []) \<longrightarrow> apply_corrections text ms = Inr text)"
  by (simp add: apply_corrections_def apply_loop_no_replacements)

theorem apply_corrections_identity_witness:
  "replacements \<lparr>offset = 2, errorLength = 3, ruleIssueType = ascii ''style'',
       message = ascii ''wordy'', replacements = []\<rparr> = [] \<and>
   replacements \<lparr>offset = 40, errorLength = 1, ruleIssueType = ascii ''grammar'',
       message = [], replacements = []\<rparr> = [] \<and>
   apply_corrections (ascii ''It is fine'')
     [\<lparr>offset = 2, errorLength = 3, ruleIssueType = ascii ''style'',
       message = ascii ''wordy'', replacements = []\<rparr>,
      \<lparr>offset = 40, errorLength = 1, ruleIssueType = ascii ''grammar'',
       message = [], replacements = []\<rparr>] = Inr (ascii ''It is fine'')"
  using apply_corrections_identity
    [of "ascii ''It is fine''"
      "[\<lparr>offset = 2, errorLength = 3, ruleIssueType = ascii ''style'',
       message = ascii ''wordy'', replacements = []\<rparr>,
      \<lparr>offset = 40, errorLength = 1, ruleIssueType = ascii ''grammar'',
       message = [], replacements = []\<rparr>]"]
  by simp

text \<open>
  C10.  \<open>apply_corrections\<close> and the substring of \<open>error_details\<close> are total over
  spans out of range.  \<open>apply_corrections\<close> returns a text for every text and every
  sequence of matches, whatever their offsets and lengths, and \<open>error_details\<close> has
  one record per match.  A span that starts at an index and ends beyond the text is
  clamped at the end of the text: the substring is what the text has from the offset
  on, and the correction replaces the text from the offset on.  No check of the spans
  stands before them: when the grammar checker answers, \<open>analyze_text\<close> returns a
  result.
\<close>

theorem out_of_range_spans_clamped:
  "(\<exists>r. apply_corrections text ms = Inr r) \<and>
   length (details_of text ms) = length ms \<and>
   (0 \<le> offset m \<and> int (length text) \<le> offset m + errorLength m \<longrightarrow>
      map detail_text (details_of text [m]) = [drop (nat (offset m)) text] \<and>
      apply_corrections text [m] =
        Inr (case replacements m of [] \<Rightarrow> text | r # _ \<Rightarrow> take (nat (offset m)) text @ r)) \<and>
   (tool_check self w text = (Inr ms, w1) \<longrightarrow>
      (\<exists>res w2. analyze_text self w text = (Inr res, w2)))"
proof -
  have total: "\<exists>r. apply_corrections text ms = Inr r"
    by (simp add: apply_corrections_def apply_loop_total)
  have len: "length (details_of text ms) = length ms"
    by (simp add: details_of_map)
  have clamp:
    "map detail_text (details_of text [m]) = [drop (nat (offset m)) text] \<and>
     apply_corrections text [m] =
       Inr (case replacements m of [] \<Rightarrow> text | r # _ \<Rightarrow> take (nat (offset m)) text @ r)"
    if a: "0 \<le> offset m" and b: "int (length text) \<le> offset m + errorLength m"
  proof (cases "replacements m")
    case Nil
    then show ?thesis using a b by (simp add: slice_beyond apply_corrections_def)
  next
    case (Cons r rs)
    then show ?thesis
      using a b
      by (simp add: slice_beyond apply_corrections_def py_getitem_0_Cons slice_to_nonneg
          slice_from_beyond)
  qed
  show ?thesis using total len clamp analyze_text_total [of self w "text" ms w1] by blast
qed

theorem out_of_range_spans_clamped_witness:
  "0 \<le> offset \<lparr>offset = 2, errorLength = 10, ruleIssueType = ascii ''grammar'',
       message = ascii ''m'', replacements = [ascii ''X'']\<rparr> \<and>
   int (length (ascii ''abc'')) \<le>
     offset \<lparr>offset = 2, errorLength = 10, ruleIssueType = ascii ''grammar'',
       message = ascii ''m'', replacements = [ascii ''X'']\<rparr> +
     errorLength \<lparr>offset = 2, errorLength = 10, ruleIssueType = ascii ''grammar'',
       message = ascii ''m'', replacements = [ascii ''X'']\<rparr> \<and>
   map detail_text (details_of (ascii ''abc'')
     [\<lparr>offset = 2, errorLength = 10, ruleIssueType = ascii ''grammar'',
       message = ascii ''m'', replacements = [ascii ''X'']\<rparr>]) = [ascii ''c''] \<and>
   apply_corrections (ascii ''abc'')
     [\<lparr>offset = 2, errorLength = 10, ruleIssueType = ascii ''grammar'',
       message = ascii ''m'', replacements = [ascii ''X'']\<rparr>] = Inr (ascii ''abX'') \<and>
   tool_check
     (init_analyzer
        (\<lambda>w t. (Inr [\<lparr>offset = 2, errorLength = 10, ruleIssueType = ascii ''grammar'',
       message = ascii ''m'', replacements = [ascii ''X'']\<rparr>], w))
        (\<lambda>w t src dest. (Inr t, w))) () (ascii ''abc'') =
     (Inr [\<lparr>offset = 2, errorLength = 10, ruleIssueType = ascii ''grammar'',
       message = ascii ''m'', replacements = [ascii ''X'']\<rparr>], ()) \<and>
   (\<exists>res w2.
      analyze_text
        (init_analyzer
           (\<lambda>w t. (Inr [\<lparr>offset = 2, errorLength = 10, ruleIssueType = ascii ''grammar'',
       message = ascii ''m'', replacements = [ascii ''X'']\<rparr>], w))
           (\<lambda>w t src dest. (Inr t, w))) () (ascii ''abc'') = (Inr res, w2))"
  using out_of_range_spans_clamped
    [of "ascii ''abc''"
      "[\<lparr>offset = 2, errorLength = 10, ruleIssueType = ascii ''grammar'',
       message = ascii ''m'', replacements = [ascii ''X'']\<rparr>]"
      "\<lparr>offset = 2, errorLength = 10, ruleIssueType = ascii ''grammar'',
       message = ascii ''m'', replacements = [ascii ''X'']\<rparr>"
      "init_analyzer
         (\<lambda>w t. (Inr [\<lparr>offset = 2, errorLength = 10, ruleIssueType = ascii ''grammar'',
       message = ascii ''m'', replacements = [ascii ''X'']\<rparr>], w))
         (\<lambda>w t src dest. (Inr t, w))" "()" "()"]
  by (simp add: init_analyzer_def ascii_def)

section \<open>Claims about analyze_text\<close>

text \<open>
  C2.  For every input text, the \<open>word_count\<close> of the analysis is the number of
  whitespace-delimited tokens of the original text.  It does not depend on the matches
  or on the corrected text: in the witness the correction turns two tokens into three
  and the word count is still two.
\<close>

theorem word_count_of_original:
  "analyze_text self w text = (Inr res, w') \<Longrightarrow> word_count res = length (spec_tokens text)"
  by (erule analyze_text_Inr) (simp add: py_split_tokens)

theorem word_count_of_original_witness:
  "\<exists>res w'.
     analyze_text
       (init_analyzer
          (\<lambda>w t. (Inr [\<lparr>offset = 0, errorLength = 4, ruleIssueType = ascii ''misspelling'',
                          message = ascii ''Did you mean a lot?'',
                          replacements = [ascii ''a lot'']\<rparr>], w))
          (\<lambda>w t src dest. (Inr t, w))) () (ascii ''alot of'') = (Inr res, w') \<and>
     word_count res = 2 \<and>
     length (spec_tokens (ascii ''alot of'')) = 2 \<and>
     corrected_text res = ascii ''a lot of'' \<and>
     length (spec_tokens (corrected_text res)) = 3"
proof -
  let ?S = "init_analyzer
          (\<lambda>w t. (Inr [\<lparr>offset = 0, errorLength = 4, ruleIssueType = ascii ''misspelling'',
                          message = ascii ''Did you mean a lot?'',
                          replacements = [ascii ''a lot'']\<rparr>], w))
          (\<lambda>w t src dest. (Inr t, w)) :: unit text_analyzer"
  have chk: "tool_check ?S () (ascii ''alot of'') =
      (Inr [\<lparr>offset = 0, errorLength = 4, ruleIssueType = ascii ''misspelling'',
             message = ascii ''Did you mean a lot?'', replacements = [ascii ''a lot'']\<rparr>], ())"
    by (simp add: init_analyzer_def)
  obtain res w' where a: "analyze_text ?S () (ascii ''alot of'') = (Inr res, w')"
    using analyze_text_total [OF chk] by blast
  have n: "length (spec_tokens (ascii ''alot of'')) = 2"
    by (simp add: ascii_def tok_simps)
  have c: "corrected_text res = ascii ''a lot of''"
    using a
    by (auto simp: analyze_text_def init_analyzer_def apply_corrections_def py_getitem_def
        slice_to_def slice_from_def adjust_index_def ascii_def Let_def)
  have m: "length (spec_tokens (ascii ''a lot of'')) = 3"
    by (simp add: ascii_def tok_simps)
  show ?thesis
    using word_count_of_original [OF a] a n c m by simp
qed

text \<open>
  C3.  For every text and every sequence of matches the grammar checker returns, the
  analysis has \<open>error_count\<close> equal to the length of \<open>error_details\<close> and to the
  number of matches, and \<open>error_details\<close> holds, match by match and in order, the
  type, the substring of the original text from \<open>offset\<close> to \<open>offset + errorLength\<close>,
  the message and the replacements as suggestions.  For an offset and a length that are
  not negative the slice is the \<open>errorLength\<close> characters behind the first \<open>offset\<close>
  ones (fewer at the end of the text).
\<close>

theorem error_details_projection:
  "analyze_text self w text = (Inr res, w') \<Longrightarrow> tool_check self w text = (Inr ms, w1) \<Longrightarrow>
   error_count res = length (error_details res) \<and>
   length (error_details res) = length ms \<and>
   error_details res =
     map (\<lambda>m. \<lparr> detail_type = ruleIssueType m,
                 detail_text = slice text (offset m) (offset m + errorLength m),
                 detail_message = message m,
                 detail_suggestions = replacements m \<rparr>) ms \<and>
   (\<forall>m\<in>set ms. span_ok m \<longrightarrow>
      slice text (offset m) (offset m + errorLength m) =
        take (nat (errorLength m)) (drop (nat (offset m)) text))"
  by (erule analyze_text_Inr) (simp add: details_of_map span_ok_def slice_nonneg)

theorem error_details_projection_witness:
  "\<exists>res w'.
     analyze_text
       (init_analyzer
          (\<lambda>w t. (Inr [\<lparr>offset = 2, errorLength = 3, ruleIssueType = ascii ''grammar'',
                          message = ascii ''agreement'', replacements = [ascii ''have'']\<rparr>,
                        \<lparr>offset = 8, errorLength = 1, ruleIssueType = ascii ''style'',
                          message = ascii ''article'', replacements = []\<rparr>], w))
          (\<lambda>w t src dest. (Inr t, w))) () (ascii ''I has a apple'') = (Inr res, w') \<and>
     span_ok \<lparr>offset = 2, errorLength = 3, ruleIssueType = ascii ''grammar'',
              message = ascii ''agreement'', replacements = [ascii ''have'']\<rparr> \<and>
     error_count res = 2 \<and>
     error_details res =
       [\<lparr>detail_type = ascii ''grammar'', detail_text = ascii ''has'',
         detail_message = ascii ''agreement'', detail_suggestions = [ascii ''have'']\<rparr>,
        \<lparr>detail_type = ascii ''style'', detail_text = ascii ''a'',
         detail_message = ascii ''article'', detail_suggestions = []\<rparr>]"
proof -
  let ?ms = "[\<lparr>offset = 2, errorLength = 3, ruleIssueType = ascii ''grammar'',
                          message = ascii ''agreement'', replacements = [ascii ''have'']\<rparr>,
                        \<lparr>offset = 8, errorLength = 1, ruleIssueType = ascii ''style'',
                          message = ascii ''article'', replacements = []\<rparr>]"
  let ?S = "init_analyzer (\<lambda>w t. (Inr ?ms, w)) (\<lambda>w t src dest. (Inr t, w)) :: unit text_analyzer"
  have chk: "tool_check ?S () (ascii ''I has a apple'') = (Inr ?ms, ())"
    by (simp add: init_analyzer_def)
  obtain res w' where a: "analyze_text ?S () (ascii ''I has a apple'') = (Inr res, w')"
    using analyze_text_total [OF chk] by blast
  have s: "slice (ascii ''I has a apple'') 2 (2 + 3) = ascii ''has''"
          "slice (ascii ''I has a apple'') 8 (8 + 1) = ascii ''a''"
    by (simp_all add: slice_def adjust_index_def ascii_def)
  show ?thesis
    using error_details_projection [OF a chk] a s by (simp add: span_ok_def)
qed

text \<open>
  C6.  The words handed to \<open>translate_native_words\<close> are the whitespace-delimited
  tokens of the original text with at least one character outside ASCII, duplicates
  kept and in the order of the text.  The translator is called once per occurrence, in
  that order (the world after the analysis is the world after these calls), and the
  dictionary holds for each word the outcome of its last occurrence.
\<close>

theorem native_words_last_attempt:
  "analyze_text self w text = (Inr res, w') \<Longrightarrow>
   translations_dict res =
     fst (translate_native_words self (snd (tool_check self w text)) (spec_native_words text)) \<and>
   w' = translator_world self (snd (tool_check self w text)) (spec_native_words text) \<and>
   length (translator_answers self (snd (tool_check self w text)) (spec_native_words text)) =
     length (spec_native_words text) \<and>
   (\<forall>i<length (spec_native_words text).
      spec_native_words text ! i \<notin> set (drop (Suc i) (spec_native_words text)) \<longrightarrow>
      translations_dict res (spec_native_words text ! i) =
        Some (stored_value
                (translator_answers self (snd (tool_check self w text)) (spec_native_words text) ! i)))"
proof (erule analyze_text_Inr)
  fix ms w1 corrected
  let ?nw = "spec_native_words text"
  let ?as = "translator_answers self w1 ?nw"
  assume chk: "tool_check self w text = (Inr ms, w1)"
    and tr: "translations_dict res =
       fst (translate_native_words self w1 (filter (\<lambda>word. \<not> isascii word) (py_split text)))"
    and w': "w' = snd (translate_native_words self w1 (filter (\<lambda>word. \<not> isascii word) (py_split text)))"
  have w1: "snd (tool_check self w text) = w1" using chk by simp
  have tr': "translations_dict res = fst (translate_native_words self w1 ?nw)"
    using tr by (simp add: native_words_eq)
  have world: "w' = translator_world self w1 ?nw"
    using w' by (simp add: native_words_eq translate_native_words_def translate_loop_upds)
  have last: "translations_dict res (?nw ! i) = Some (stored_value (?as ! i))"
    if "i < length ?nw" "?nw ! i \<notin> set (drop (Suc i) ?nw)" for i
  proof -
    have ne: "?nw \<noteq> []" using that by auto
    have "(Map.empty(?nw [\<mapsto>] map stored_value ?as)) (?nw ! i) = Some (map stored_value ?as ! i)"
      by (rule upds_last_occurrence) (use that in \<open>simp_all add: length_translator_answers\<close>)
    then show ?thesis
      using that ne
      by (simp add: tr' translate_native_words_def translate_loop_upds length_translator_answers)
  qed
  show ?thesis
    using tr' world last by (simp add: w1 length_translator_answers)
qed

theorem native_words_last_attempt_witness:
  "\<exists>res.
     analyze_text
       (init_analyzer (\<lambda>w t. (Inr [], w))
          (\<lambda>w word src dest.
             (if w = 0 then Inl (ServiceError (ascii ''busy'')) else Inr (ascii ''yes''), Suc w)))
       0 [1076, 1072, 32, 104, 105, 32, 32, 1076, 1072] = (Inr res, 2) \<and>
     spec_native_words [1076, 1072, 32, 104, 105, 32, 32, 1076, 1072] =
       [[1076, 1072], [1076, 1072]] \<and>
     translator_answers
       (init_analyzer (\<lambda>w t. (Inr [], w))
          (\<lambda>w word src dest.
             (if w = 0 then Inl (ServiceError (ascii ''busy'')) else Inr (ascii ''yes''), Suc w)))
       0 [[1076, 1072], [1076, 1072]] = [Inl (ServiceError (ascii ''busy'')), Inr (ascii ''yes'')] \<and>
     translations_dict res [1076, 1072] = Some (ascii ''yes'')"
proof -
  let ?S = "init_analyzer (\<lambda>w t. (Inr [], w))
          (\<lambda>w word src dest.
             (if w = 0 then Inl (ServiceError (ascii ''busy'')) else Inr (ascii ''yes''), Suc w))
          :: nat text_analyzer"
  let ?T = "[1076, 1072, 32, 104, 105, 32, 32, 1076, 1072] :: pystr"
  have chk: "tool_check ?S 0 ?T = (Inr [], 0)" by (simp add: init_analyzer_def)
  obtain res w' where a: "analyze_text ?S 0 ?T = (Inr res, w')"
    using analyze_text_total [OF chk] by blast
  have nw: "spec_native_words ?T = [[1076, 1072], [1076, 1072]]"
    by (simp add: spec_native_words_def tok_simps)
  have ans: "translator_answers ?S 0 [[1076, 1072], [1076, 1072]] =
               [Inl (ServiceError (ascii ''busy'')), Inr (ascii ''yes'')]"
    by (simp add: init_analyzer_def)
  have wld: "translator_world ?S 0 [[1076, 1072], [1076, 1072]] = 2"
    by (simp add: init_analyzer_def)
  note t = native_words_last_attempt [OF a]
  have w': "w' = 2" using t by (simp add: nw init_analyzer_def)
  from t have all: "\<forall>i<length (spec_native_words ?T).
      spec_native_words ?T ! i \<notin> set (drop (Suc i) (spec_native_words ?T)) \<longrightarrow>
      translations_dict res (spec_native_words ?T ! i) =
        Some (stored_value
                (translator_answers ?S (snd (tool_check ?S 0 ?T)) (spec_native_words ?T) ! i))"
    by blast
  have d: "translations_dict res [1076, 1072] = Some (ascii ''yes'')"
    using all [rule_format, of 1] by (simp add: nw init_analyzer_def)
  show ?thesis using a w' nw ans d by blast
qed

section \<open>Claims about translate_native_words\<close>

text \<open>
  C4.  On an empty list of words \<open>translate_native_words\<close> returns the fixed
  dictionary with the single entry that says there are no words in the native language
  and no translation is needed; and on no list of words does it return an empty
  dictionary.
\<close>

theorem empty_words_sentinel:
  "translate_native_words self w [] = ([no_native_words_key \<mapsto> no_translation_needed], w) \<and>
   dom (fst (translate_native_words self w [])) = {no_native_words_key} \<and>
   fst (translate_native_words self w words) \<noteq> Map.empty"
proof -
  have "dom (fst (translate_native_words self w words)) \<noteq> {}"
    by (cases words)
       (simp_all add: translate_native_words_def translate_loop_upds length_translator_answers)
  then have "fst (translate_native_words self w words) \<noteq> Map.empty" by auto
  then show ?thesis by (simp add: translate_native_words_def)
qed

text \<open>
  C5.  Failures are isolated per word.  For every non-empty list of words the method
  returns a dictionary (it has no exceptional result), every word of the list is a key
  of it, and the translator has been called for every word, whatever failed before.  A
  word whose (last) translation failed is mapped to the error prefix followed by the
  message of the failure, and a word whose translation succeeded to the translated
  text.
\<close>

theorem per_word_failure_isolation:
  "words \<noteq> [] \<Longrightarrow>
   dom (fst (translate_native_words self w words)) = set words \<and>
   snd (translate_native_words self w words) = translator_world self w words \<and>
   length (translator_answers self w words) = length words \<and>
   (\<forall>i<length words. words ! i \<notin> set (drop (Suc i) words) \<longrightarrow>
      fst (translate_native_words self w words) (words ! i) =
        Some (case translator_answers self w words ! i of
                Inl e \<Rightarrow> translation_error_prefix @ exn_str e
              | Inr translated \<Rightarrow> translated))"
proof -
  assume ne: "words \<noteq> []"
  let ?as = "translator_answers self w words"
  have r: "translate_native_words self w words =
             (Map.empty(words [\<mapsto>] map stored_value ?as), translator_world self w words)"
    using ne by (simp add: translate_native_words_def translate_loop_upds)
  have sv: "stored_value a = (case a of Inl e \<Rightarrow> translation_error_prefix @ exn_str e
                               | Inr translated \<Rightarrow> translated)" for a
    by (cases a) simp_all
  have d: "dom (fst (translate_native_words self w words)) = set words"
    by (simp add: r length_translator_answers)
  have l: "fst (translate_native_words self w words) (words ! i) =
             Some (case ?as ! i of Inl e \<Rightarrow> translation_error_prefix @ exn_str e
                   | Inr translated \<Rightarrow> translated)"
    if "i < length words" "words ! i \<notin> set (drop (Suc i) words)" for i
  proof -
    have "(Map.empty(words [\<mapsto>] map stored_value ?as)) (words ! i) =
            Some (map stored_value ?as ! i)"
      by (rule upds_last_occurrence) (use that in \<open>simp_all add: length_translator_answers\<close>)
    then show ?thesis using that by (simp add: r length_translator_answers sv)
  qed
  show ?thesis using d l by (simp add: r length_translator_answers)
qed

theorem per_word_failure_isolation_witness:
  "[[1076, 1072], [1085, 1077, 1090]] \<noteq> ([] :: pystr list) \<and>
   translator_answers
     (init_analyzer (\<lambda>w t. (Inr [], w))
        (\<lambda>w word src dest.
           (if word = [1076, 1072] then Inl (ServiceError (ascii ''timeout''))
            else Inr (ascii ''no''), Suc w)))
     0 [[1076, 1072], [1085, 1077, 1090]] =
     [Inl (ServiceError (ascii ''timeout'')), Inr (ascii ''no'')] \<and>
   fst (translate_native_words
     (init_analyzer (\<lambda>w t. (Inr [], w))
        (\<lambda>w word src dest.
           (if word = [1076, 1072] then Inl (ServiceError (ascii ''timeout''))
            else Inr (ascii ''no''), Suc w)))
     0 [[1076, 1072], [1085, 1077, 1090]]) [1076, 1072] =
     Some (translation_error_prefix @ ascii ''timeout'') \<and>
   fst (translate_native_words
     (init_analyzer (\<lambda>w t. (Inr [], w))
        (\<lambda>w word src dest.
           (if word = [1076, 1072] then Inl (ServiceError (ascii ''timeout''))
            else Inr (ascii ''no''), Suc w)))
     0 [[1076, 1072], [1085, 1077, 1090]]) [1085, 1077, 1090] = Some (ascii ''no'') \<and>
   snd (translate_native_words
     (init_analyzer (\<lambda>w t. (Inr [], w))
        (\<lambda>w word src dest.
           (if word = [1076, 1072] then Inl (ServiceError (ascii ''timeout''))
            else Inr (ascii ''no''), Suc w)))
     0 [[1076, 1072], [1085, 1077, 1090]]) = 2"
proof -
  let ?S = "init_analyzer (\<lambda>w t. (Inr [], w))
        (\<lambda>w word src dest.
           (if word = [1076, 1072] then Inl (ServiceError (ascii ''timeout''))
            else Inr (ascii ''no''), Suc w)) :: nat text_analyzer"
  let ?ws = "[[1076, 1072], [1085, 1077, 1090]] :: pystr list"
  have ne: "?ws \<noteq> []" by simp
  have ans: "translator_answers ?S 0 ?ws = [Inl (ServiceError (ascii ''timeout'')), Inr (ascii ''no'')]"
    by (simp add: init_analyzer_def)
  have wld: "translator_world ?S 0 ?ws = 2"
    by (simp add: init_analyzer_def)
  note t = per_word_failure_isolation [OF ne, of ?S 0]
  from t have all: "\<forall>i<length ?ws. ?ws ! i \<notin> set (drop (Suc i) ?ws) \<longrightarrow>
      fst (translate_native_words ?S 0 ?ws) (?ws ! i) =
        Some (case translator_answers ?S 0 ?ws ! i of
                Inl e \<Rightarrow> translation_error_prefix @ exn_str e
              | Inr translated \<Rightarrow> translated)"
    by blast
  have a: "fst (translate_native_words ?S 0 ?ws) [1076, 1072] =
             Some (translation_error_prefix @ ascii ''timeout'')"
    using all [rule_format, of 0] by (simp add: init_analyzer_def)
  have b: "fst (translate_native_words ?S 0 ?ws) [1085, 1077, 1090] = Some (ascii ''no'')"
    using all [rule_format, of 1] by (simp add: init_analyzer_def)
  have c: "snd (translate_native_words ?S 0 ?ws) = 2"
    using t by (simp add: init_analyzer_def)
  show ?thesis using ne ans a b c by blast
qed

section \<open>Claims about the endpoints\<close>

text \<open>
  C8.  The endpoint \<open>/error_chart\<close> stops early on an empty sequence of matches: the
  response is the message that no errors were found, and the renderer is not called
  (the response and the world do not depend on it; the world is the one the grammar
  checker left).  When the renderer is called, the sequence of matches is not empty and
  the chart has at least one bar.
\<close>

theorem error_chart_no_matches:
  "(tool_check self w text = (Inr [], w1) \<longrightarrow>
      error_chart self plt w text =
        (Inr (JSONResponse [(ascii ''message'', no_errors_found)]), w1)) \<and>
   (tool_check self w text = (Inr ms, w1) \<and> ms \<noteq> [] \<longrightarrow>
      (\<exists>c. bar_x c \<noteq> [] \<and> length (bar_height c) = length (bar_x c) \<and>
           error_chart self plt w text =
             (Inr (FileResponse (fst (plt w1 c)) (ascii ''image/png'') (ascii ''error_chart.png'')),
              snd (plt w1 c))))"
proof -
  have "\<exists>c. bar_x c \<noteq> [] \<and> length (bar_height c) = length (bar_x c) \<and>
           error_chart self plt w text =
             (Inr (FileResponse (fst (plt w1 c)) (ascii ''image/png'') (ascii ''error_chart.png'')),
              snd (plt w1 c))"
    if chk: "tool_check self w text = (Inr ms, w1)" and ne: "ms \<noteq> []"
  proof -
    have "Counter (map ruleIssueType ms) \<noteq> []" using ne by (simp add: Counter_nonempty)
    then show ?thesis
      using chk ne
      by (simp add: error_chart_def create_error_chart_def Let_def) (rule exI, auto)
  qed
  then show ?thesis by (simp add: error_chart_def)
qed

theorem error_chart_no_matches_witness:
  "tool_check
     (init_analyzer (\<lambda>w t. (Inr [], Suc w)) (\<lambda>w t src dest. (Inr t, w)))
     0 (ascii ''All fine.'') = (Inr [], 1) \<and>
   error_chart
     (init_analyzer (\<lambda>w t. (Inr [], Suc w)) (\<lambda>w t src dest. (Inr t, w)))
     (\<lambda>w c. (bar_height c, w + 100)) 0 (ascii ''All fine.'') =
     (Inr (JSONResponse [(ascii ''message'', no_errors_found)]), 1) \<and>
   error_chart
     (init_analyzer
        (\<lambda>w t. (Inr [\<lparr>offset = 2, errorLength = 3, ruleIssueType = ascii ''grammar'',
                        message = [], replacements = [ascii ''have'']\<rparr>,
                      \<lparr>offset = 6, errorLength = 1, ruleIssueType = ascii ''spelling'',
                        message = [], replacements = []\<rparr>,
                      \<lparr>offset = 8, errorLength = 5, ruleIssueType = ascii ''grammar'',
                        message = [], replacements = []\<rparr>], Suc w))
        (\<lambda>w t src dest. (Inr t, w)))
     (\<lambda>w c. (bar_height c, w + 100)) 0 (ascii ''I has a apple'') =
     (Inr (FileResponse [2, 1] (ascii ''image/png'') (ascii ''error_chart.png'')), 101)"
proof -
  let ?plt = "\<lambda>(w::nat) c. (bar_height c, w + 100)"
  let ?S0 = "init_analyzer (\<lambda>w t. (Inr [], Suc w)) (\<lambda>w t src dest. (Inr t, w)) :: nat text_analyzer"
  let ?ms = "[\<lparr>offset = 2, errorLength = 3, ruleIssueType = ascii ''grammar'',
                        message = [], replacements = [ascii ''have'']\<rparr>,
                      \<lparr>offset = 6, errorLength = 1, ruleIssueType = ascii ''spelling'',
                        message = [], replacements = []\<rparr>,
                      \<lparr>offset = 8, errorLength = 5, ruleIssueType = ascii ''grammar'',
                        message = [], replacements = []\<rparr>]"
  have chk: "tool_check ?S0 0 (ascii ''All fine.'') = (Inr [], 1)"
    by (simp add: init_analyzer_def)
  have a: "error_chart ?S0 ?plt 0 (ascii ''All fine.'') =
             (Inr (JSONResponse [(ascii ''message'', no_errors_found)]), 1)"
    using error_chart_no_matches [of ?S0 0 "ascii ''All fine.''" 1 ?plt] chk by blast
  have b: "error_chart (init_analyzer (\<lambda>w t. (Inr ?ms, Suc w)) (\<lambda>w t src dest. (Inr t, w)))
             ?plt 0 (ascii ''I has a apple'') =
           (Inr (FileResponse [2, 1] (ascii ''image/png'') (ascii ''error_chart.png'')), 101)"
    by (simp add: error_chart_def create_error_chart_def init_analyzer_def Counter_def ascii_def)
  show ?thesis using chk a b by blast
qed

text \<open>
  C7.  The claim is that \<open>/translate_to_russian\<close> inserts a space after every
  sentence-ending mark that is directly followed by a character that is not whitespace.
  The substitution consumes the character behind a mark, so a mark that directly
  follows another mark is not looked at: when the translator answers with the seven
  characters of \<open>Chto?!Da\<close> in Cyrillic, the result has a space after \<open>?\<close>, but
  \<open>!\<close> is still directly followed by a letter.
\<close>

theorem translate_to_russian_adjacent_marks:
  "translate_to_russian
     (init_analyzer (\<lambda>w t. (Inr [], w))
        (\<lambda>w t src dest. (Inr [1063, 1090, 1086, 63, 33, 1044, 1072], w)))
     () (ascii ''What?!Yes'') =
   (JSONResponse
      [(ascii ''original_text'', ascii ''What?!Yes''),
       (ascii ''translated_text'', [1063, 1090, 1086, 63, 32, 33, 1044, 1072])], ()) \<and>
   adjacent_marks [1063, 1090, 1086, 63, 33, 1044, 1072] \<and>
   tight [1063, 1090, 1086, 63, 32, 33, 1044, 1072]"
  by (simp add: translate_to_russian_def init_analyzer_def sentence_end_def isspace_def)

end
